theory Spec2Isabelle
  imports Complex_Main "HOL-Library.Sublist"
begin

section \<open>Strings\<close>

text \<open>
  Python strings are modelled as \<^typ>\<open>string\<close>. \<^verbatim>\<open>s.lower()\<close> maps the ASCII
  capitals to their small letters and leaves every other character alone (the model
  covers ASCII text, which is what the term tables of the repository contain).
  \<^verbatim>\<open>a in b\<close> on strings is the contiguous-substring test.
\<close>

definition lower_char :: "char \<Rightarrow> char" where
  "lower_char c =
     (let n = (of_char c :: nat) in if 65 \<le> n \<and> n \<le> 90 then char_of (n + 32) else c)"

definition lower :: "string \<Rightarrow> string" where
  "lower s = map lower_char s"

definition str_in :: "string \<Rightarrow> string \<Rightarrow> bool" where
  "str_in a b = sublist a b"

section \<open>Findings, discrepancies and agreements\<close>

text \<open>
  The dictionaries exchanged between the components are records. A key the code reads
  with \<^verbatim>\<open>d[k]\<close> is a plain field; a key the code reads with \<^verbatim>\<open>d.get(k)\<close>
  is an optional field, \<open>None\<close> standing for the missing key. Numbers that Python keeps
  as floats are exact reals here.
\<close>

record text_finding =
  tf_type :: "string option"
  tf_finding :: string
  tf_severity :: "string option"
  tf_confidence :: real

record image_finding =
  img_type :: string
  img_severity :: "string option"
  img_confidence :: real

record discrepancy =
  d_type :: string
  d_description :: string
  d_severity :: string
  d_confidence :: real
  d_source :: "string option"

text \<open>Agreement entries of \<^verbatim>\<open>RadiologyAnalyzer.compare_image_and_text\<close> (main.py).\<close>

record agreement_a =
  aa_finding :: string
  aa_text_confidence :: real
  aa_image_confidence :: real

text \<open>Agreement entries of \<^verbatim>\<open>_perform_cross_modal_analysis\<close> (run\_analysis.py).\<close>

record agreement_c =
  ac_text_finding :: string
  ac_image_finding :: string
  ac_confidence_text :: real
  ac_confidence_image :: real

record 'a comparison =
  discrepancies :: "discrepancy list"
  agreements :: "'a list"
  agreement_percentage :: real
  total_discrepancies :: nat
  cross_modal_confidence :: int

definition quoted :: "string \<Rightarrow> string" where
  "quoted s = CHR 0x27 # s @ [CHR 0x27]"

definition is_pathological :: "text_finding \<Rightarrow> bool" where
  "is_pathological f = (tf_type f = Some ''pathological'')"

section \<open>The two finding matchers\<close>

text \<open>
  main.py, inline in both loops of \<^verbatim>\<open>compare_image_and_text\<close>:
  \<^verbatim>\<open>text_finding['finding'].lower() in img_finding['type'].lower() or
  img_finding['type'].lower() in text_finding['finding'].lower()\<close>.
\<close>

definition substring_match :: "string \<Rightarrow> string \<Rightarrow> bool" where
  "substring_match text_term image_term =
     (str_in text_term image_term \<or> str_in image_term text_term)"

definition inline_match :: "text_finding \<Rightarrow> image_finding \<Rightarrow> bool" where
  "inline_match text_finding img_finding =
     substring_match (lower (tf_finding text_finding)) (lower (img_type img_finding))"

text \<open>
  run\_analysis.py, \<^verbatim>\<open>_findings_match\<close>: the direct test, then the loop over the
  items of the synonym dictionary in their insertion order, returning at the first hit.
\<close>

definition synonyms :: "(string \<times> string list) list" where
  "synonyms =
     [(''pneumonia'', [''consolidation'', ''opacity'', ''infiltrate'']),
      (''consolidation'', [''pneumonia'', ''opacity'']),
      (''opacity'', [''consolidation'', ''pneumonia'', ''infiltrate'']),
      (''effusion'', [''fluid'']),
      (''pneumothorax'', [''air'', ''collapse''])]"

fun synonym_loop :: "(string \<times> string list) list \<Rightarrow> string \<Rightarrow> string \<Rightarrow> bool" where
  "synonym_loop [] text_term image_term = False"
| "synonym_loop ((key, synonym_list) # rest) text_term image_term =
     (if str_in key text_term \<and> list_ex (\<lambda>syn. str_in syn image_term) synonym_list then True
      else if str_in key image_term \<and> list_ex (\<lambda>syn. str_in syn text_term) synonym_list then True
      else synonym_loop rest text_term image_term)"

definition terms_match :: "string \<Rightarrow> string \<Rightarrow> bool" where
  "terms_match text_term image_term =
     (if str_in text_term image_term \<or> str_in image_term text_term then True
      else synonym_loop synonyms text_term image_term)"

definition findings_match :: "text_finding \<Rightarrow> image_finding \<Rightarrow> bool" where
  "findings_match text_finding image_finding =
     terms_match (lower (tf_finding text_finding)) (lower (img_type image_finding))"

section \<open>Reconciliation in main.py: \<^verbatim>\<open>compare_image_and_text\<close>\<close>

text \<open>
  The inner loops with \<^verbatim>\<open>break\<close>: the first matching entry, if any. The
  source tests the entry with \<^verbatim>\<open>if not matching_image_finding\<close>; a finding is a
  dictionary with at least its \<^verbatim>\<open>type\<close> key, hence true, so the test is
  \<open>None\<close> against \<open>Some\<close>.
\<close>

fun matching_image_finding :: "text_finding \<Rightarrow> image_finding list \<Rightarrow> image_finding option" where
  "matching_image_finding text_finding [] = None"
| "matching_image_finding text_finding (img_finding # rest) =
     (if inline_match text_finding img_finding then Some img_finding
      else matching_image_finding text_finding rest)"

fun matching_text_finding :: "image_finding \<Rightarrow> text_finding list \<Rightarrow> text_finding option" where
  "matching_text_finding img_finding [] = None"
| "matching_text_finding img_finding (text_finding # rest) =
     (if inline_match text_finding img_finding then Some text_finding
      else matching_text_finding img_finding rest)"

definition false_positive_a :: "text_finding \<Rightarrow> discrepancy" where
  "false_positive_a text_finding =
     \<lparr>d_type = ''false_positive'',
      d_description = quoted (tf_finding text_finding) @ '' mentioned in report but not detected in image'',
      d_severity = ''medium'',
      d_confidence = 100 - tf_confidence text_finding,
      d_source = Some ''text_only''\<rparr>"

definition false_negative_a :: "image_finding \<Rightarrow> discrepancy" where
  "false_negative_a img_finding =
     \<lparr>d_type = ''false_negative'',
      d_description = quoted (img_type img_finding) @ '' detected in image but not mentioned in report'',
      d_severity = ''high'',
      d_confidence = img_confidence img_finding,
      d_source = Some ''image_only''\<rparr>"

text \<open>The first outer loop appends to \<^verbatim>\<open>discrepancies\<close> or to \<^verbatim>\<open>agreements\<close>.\<close>

fun text_loop_a ::
  "text_finding list \<Rightarrow> image_finding list \<Rightarrow> discrepancy list \<times> agreement_a list
     \<Rightarrow> discrepancy list \<times> agreement_a list" where
  "text_loop_a [] image_findings acc = acc"
| "text_loop_a (text_finding # rest) image_findings (ds, ags) =
     (case matching_image_finding text_finding image_findings of
        None \<Rightarrow> text_loop_a rest image_findings (ds @ [false_positive_a text_finding], ags)
      | Some m \<Rightarrow>
          text_loop_a rest image_findings
            (ds, ags @ [\<lparr>aa_finding = tf_finding text_finding,
                         aa_text_confidence = tf_confidence text_finding,
                         aa_image_confidence = img_confidence m\<rparr>]))"

fun image_loop_a :: "image_finding list \<Rightarrow> text_finding list \<Rightarrow> discrepancy list \<Rightarrow> discrepancy list" where
  "image_loop_a [] text_pathology ds = ds"
| "image_loop_a (img_finding # rest) text_pathology ds =
     (case matching_text_finding img_finding text_pathology of
        None \<Rightarrow> image_loop_a rest text_pathology (ds @ [false_negative_a img_finding])
      | Some m \<Rightarrow> image_loop_a rest text_pathology ds)"

text \<open>
  Python's \<^verbatim>\<open>round(x, 1)\<close> on a float: to the nearest tenth, a tie going to the even
  digit. On an \<^verbatim>\<open>int\<close> (as \<^verbatim>\<open>100 - len(discrepancies) * 15\<close> is) it returns
  the integer unchanged.
\<close>

definition round_half_even :: "real \<Rightarrow> int" where
  "round_half_even x =
     (let f = \<lfloor>x\<rfloor>; d = x - of_int f
      in if d < 1 / 2 then f else if 1 / 2 < d then f + 1 else if even f then f else f + 1)"

definition round1 :: "real \<Rightarrow> real" where
  "round1 x = of_int (round_half_even (x * 10)) / 10"

definition compare_image_and_text ::
  "image_finding list \<Rightarrow> text_finding list \<Rightarrow> agreement_a comparison" where
  "compare_image_and_text image_findings text_findings =
     (let text_pathology = filter is_pathological text_findings;
          (ds1, ags) = text_loop_a text_pathology image_findings ([], []);
          ds = image_loop_a image_findings text_pathology ds1;
          total_findings = length text_pathology + length image_findings;
          agreement_percentage =
            (if total_findings > 0
             then (real (length ags * 2) / real (max total_findings 1)) * 100
             else 100)
      in \<lparr>discrepancies = ds,
          agreements = ags,
          agreement_percentage = round1 agreement_percentage,
          total_discrepancies = length ds,
          cross_modal_confidence = 100 - int (length ds) * 15\<rparr>)"

section \<open>Reconciliation in run\_analysis.py: \<^verbatim>\<open>_perform_cross_modal_analysis\<close>\<close>

text \<open>
  One entry of \<^verbatim>\<open>image_results\<close>. \<^verbatim>\<open>img.get('success')\<close> is read for its truth
  value, so a missing key is \<open>False\<close>; \<^verbatim>\<open>pathology_findings\<close> and the quality score
  \<^verbatim>\<open>quality_metrics.overall_quality_score\<close> are read with defaults.
\<close>

record image_result =
  ir_success :: bool
  ir_pathology_findings :: "image_finding list option"
  ir_overall_quality_score :: "real option"

fun image_pathology_of :: "image_result list \<Rightarrow> image_finding list \<Rightarrow> image_finding list" where
  "image_pathology_of [] image_pathology = image_pathology"
| "image_pathology_of (img_result # rest) image_pathology =
     (if ir_success img_result
      then image_pathology_of rest
             (image_pathology @ (case ir_pathology_findings img_result of None \<Rightarrow> [] | Some fs \<Rightarrow> fs))
      else image_pathology_of rest image_pathology)"

definition false_positive_c :: "text_finding \<Rightarrow> discrepancy" where
  "false_positive_c text_finding =
     \<lparr>d_type = ''false_positive'',
      d_description = quoted (tf_finding text_finding) @ '' mentioned in report but not detected in images'',
      d_severity = (case tf_severity text_finding of None \<Rightarrow> ''unknown'' | Some s \<Rightarrow> s),
      d_confidence = 100 - tf_confidence text_finding,
      d_source = None\<rparr>"

definition false_negative_c :: "image_finding \<Rightarrow> discrepancy" where
  "false_negative_c img_finding =
     \<lparr>d_type = ''false_negative'',
      d_description = quoted (img_type img_finding) @ '' detected in images but not mentioned in report'',
      d_severity = (case img_severity img_finding of None \<Rightarrow> ''unknown'' | Some s \<Rightarrow> s),
      d_confidence = img_confidence img_finding,
      d_source = None\<rparr>"

text \<open>
  The inner loop of the first pass sets \<^verbatim>\<open>matched\<close> and appends the agreement at
  the first match, then breaks.
\<close>

fun inner_text_loop_c ::
  "text_finding \<Rightarrow> image_finding list \<Rightarrow> agreement_c list \<Rightarrow> bool \<times> agreement_c list" where
  "inner_text_loop_c text_finding [] ags = (False, ags)"
| "inner_text_loop_c text_finding (img_finding # rest) ags =
     (if findings_match text_finding img_finding
      then (True, ags @ [\<lparr>ac_text_finding = tf_finding text_finding,
                           ac_image_finding = img_type img_finding,
                           ac_confidence_text = tf_confidence text_finding,
                           ac_confidence_image = img_confidence img_finding\<rparr>])
      else inner_text_loop_c text_finding rest ags)"

fun text_loop_c ::
  "text_finding list \<Rightarrow> image_finding list \<Rightarrow> discrepancy list \<times> agreement_c list
     \<Rightarrow> discrepancy list \<times> agreement_c list" where
  "text_loop_c [] image_pathology acc = acc"
| "text_loop_c (text_finding # rest) image_pathology (ds, ags) =
     (case inner_text_loop_c text_finding image_pathology ags of
        (matched, ags') \<Rightarrow>
          if \<not> matched
          then text_loop_c rest image_pathology (ds @ [false_positive_c text_finding], ags')
          else text_loop_c rest image_pathology (ds, ags'))"

fun inner_image_loop_c :: "image_finding \<Rightarrow> text_finding list \<Rightarrow> bool" where
  "inner_image_loop_c img_finding [] = False"
| "inner_image_loop_c img_finding (text_finding # rest) =
     (if findings_match text_finding img_finding then True
      else inner_image_loop_c img_finding rest)"

fun image_loop_c :: "image_finding list \<Rightarrow> text_finding list \<Rightarrow> discrepancy list \<Rightarrow> discrepancy list" where
  "image_loop_c [] text_pathology ds = ds"
| "image_loop_c (img_finding # rest) text_pathology ds =
     (if \<not> inner_image_loop_c img_finding text_pathology
      then image_loop_c rest text_pathology (ds @ [false_negative_c img_finding])
      else image_loop_c rest text_pathology ds)"

text \<open>The parameter \<^verbatim>\<open>ml_analysis\<close> of the source is never read and is left out.\<close>

definition perform_cross_modal_analysis ::
  "text_finding list \<Rightarrow> image_result list \<Rightarrow> agreement_c comparison" where
  "perform_cross_modal_analysis nlp_results image_results =
     (let text_pathology = filter is_pathological nlp_results;
          image_pathology = image_pathology_of image_results [];
          (ds1, ags) = text_loop_c text_pathology image_pathology ([], []);
          ds = image_loop_c image_pathology text_pathology ds1;
          total_findings = length text_pathology + length image_pathology;
          agreement_score = (real (length ags * 2) / real (max total_findings 1)) * 100
      in \<lparr>discrepancies = ds,
          agreements = ags,
          agreement_percentage = min 100 agreement_score,
          total_discrepancies = length ds,
          cross_modal_confidence = max 0 (100 - int (length ds) * 15)\<rparr>)"

section \<open>Risk level and overall confidence in main.py\<close>

text \<open>
  \<^verbatim>\<open>text_analysis\<close> as \<^verbatim>\<open>analyze_report_text\<close> builds it, with the keys the
  synthesizer reads (\<^verbatim>\<open>completeness.score\<close> flattened into one field). In an image
  analysis, \<^verbatim>\<open>quality_metrics\<close> is either the dictionary of
  \<^verbatim>\<open>_calculate_image_quality\<close>, which always holds \<^verbatim>\<open>overall_quality\<close>, or
  the empty dictionary of a failed preprocessing: \<open>Some q\<close> and \<open>None\<close>.
\<close>

record inconsistency =
  inc_type :: string
  inc_description :: string
  inc_severity :: string
  inc_confidence :: real

record text_analysis =
  ta_findings :: "text_finding list"
  ta_completeness_score :: real
  ta_inconsistencies :: "inconsistency list"
  ta_confidence :: real

record image_analysis =
  ia_overall_quality :: "real option"
  ia_pathology_findings :: "image_finding list"
  ia_processed_successfully :: bool

fun quality_risk_loop :: "image_analysis list \<Rightarrow> nat \<Rightarrow> nat" where
  "quality_risk_loop [] risk_score = risk_score"
| "quality_risk_loop (img_analysis # rest) risk_score =
     (if (case ia_overall_quality img_analysis of None \<Rightarrow> 100 | Some q \<Rightarrow> q) < 60
      then quality_risk_loop rest (risk_score + 20)
      else quality_risk_loop rest risk_score)"

definition calculate_risk_level ::
  "'a comparison \<Rightarrow> text_analysis \<Rightarrow> image_analysis list \<Rightarrow> string" where
  "calculate_risk_level comparison_result text_analysis image_analysis =
     (let risk_score0 = 0;
          risk_score1 = risk_score0 + length (discrepancies comparison_result) * 20;
          risk_score2 = risk_score1 + length (ta_inconsistencies text_analysis) * 15;
          risk_score3 = (if ta_completeness_score text_analysis < 70 then risk_score2 + 25
                         else risk_score2);
          risk_score = quality_risk_loop image_analysis risk_score3
      in if risk_score \<ge> 60 then ''high''
         else if risk_score \<ge> 30 then ''medium''
         else ''low'')"

fun confidences_loop :: "image_analysis list \<Rightarrow> real list \<Rightarrow> real list" where
  "confidences_loop [] confidences = confidences"
| "confidences_loop (img_analysis # rest) confidences =
     (case ia_overall_quality img_analysis of
        None \<Rightarrow> confidences_loop rest confidences
      | Some q \<Rightarrow> confidences_loop rest (confidences @ [q]))"

definition np_mean :: "real list \<Rightarrow> real" where
  "np_mean xs = sum_list xs / real (length xs)"

definition calculate_overall_confidence ::
  "text_analysis \<Rightarrow> image_analysis list \<Rightarrow> 'a comparison \<Rightarrow> real" where
  "calculate_overall_confidence text_analysis image_analysis comparison_result =
     (let confidences = confidences_loop image_analysis [ta_confidence text_analysis];
          base_confidence = (if confidences \<noteq> [] then np_mean confidences else 70);
          agreement_bonus = agreement_percentage comparison_result * 0.2
      in min 95 (max 30 (base_confidence + agreement_bonus
                          - real (length (discrepancies comparison_result) * 5))))"

section \<open>The classifier models of ml\_models.py\<close>

text \<open>
  The fitted scikit-learn estimators and scalers are opaque: the model state holds them
  as a value of type \<open>'m\<close>, and what the library computes from them is a parameter of
  the embedding. \<open>est_fit\<close> stands for fitting the four scalers and models on the
  synthetic training data, \<open>est_predict\<close> and \<open>est_predict_proba\<close> for scaling one
  feature vector and asking the named model for its class index and its class
  probabilities.
\<close>

record 'm estimator =
  est_fit :: "'m \<Rightarrow> 'm"
  est_predict :: "'m \<Rightarrow> string \<Rightarrow> real list \<Rightarrow> nat"
  est_predict_proba :: "'m \<Rightarrow> string \<Rightarrow> real list \<Rightarrow> real list"

record 'm ml_models =
  models :: 'm
  feature_names :: "string list"
  is_trained :: bool

datatype py_error = IndexError

text \<open>
  The dictionaries the predictors return: the error record
  \<^verbatim>\<open>{'error': ...}\<close> or the record of one classifier head.
\<close>

datatype prediction =
    Error_record string
  | Pathology_record bool real real real
  | Severity_record string real "(string \<times> real) list"
  | Quality_record string real real "(string \<times> real) list"
  | Discrepancy_record bool real string

definition py_index :: "'a list \<Rightarrow> nat \<Rightarrow> py_error + 'a" where
  "py_index xs i = (if i < length xs then Inr (xs ! i) else Inl IndexError)"

definition default_values :: "(string \<times> real) list" where
  "default_values =
     [(''contrast'', 50), (''brightness'', 128), (''sharpness'', 75),
      (''symmetry_score'', 0.8), (''edge_density'', 0.1), (''word_count'', 80),
      (''medical_term_count'', 12), (''sentence_count'', 8),
      (''completeness_score'', 80), (''clarity_score'', 80),
      (''text_image_agreement'', 0.8), (''finding_count_text'', 3),
      (''finding_count_image'', 3), (''confidence_variance'', 10)]"

definition prepare_feature_vector :: "'m ml_models \<Rightarrow> (string \<rightharpoonup> real) \<Rightarrow> real list" where
  "prepare_feature_vector self features =
     map (\<lambda>feature_name.
            case features feature_name of
              Some v \<Rightarrow> v
            | None \<Rightarrow> (case map_of default_values feature_name of Some v \<Rightarrow> v | None \<Rightarrow> 0))
         (feature_names self)"

definition get_risk_level :: "real \<Rightarrow> string" where
  "get_risk_level probability =
     (if probability \<ge> 0.7 then ''high''
      else if probability \<ge> 0.4 then ''medium''
      else ''low'')"

definition predict_pathology ::
  "'m estimator \<Rightarrow> 'm ml_models \<Rightarrow> (string \<rightharpoonup> real) \<Rightarrow> (py_error + prediction) \<times> 'm ml_models" where
  "predict_pathology est self features =
     (if \<not> is_trained self then (Inr (Error_record ''Models not trained yet''), self)
      else
        let feature_vector = prepare_feature_vector self features;
            prediction = est_predict est (models self) ''pathology_detector'' feature_vector;
            probability = est_predict_proba est (models self) ''pathology_detector'' feature_vector
        in (case (py_index probability 1, py_index probability 0) of
              (Inr p1, Inr p0) \<Rightarrow>
                Inr (Pathology_record (prediction \<noteq> 0) (if prediction \<noteq> 0 then p1 else p0) p1 p0)
            | _ \<Rightarrow> Inl IndexError,
            self))"

definition severity_labels :: "string list" where
  "severity_labels = [''mild'', ''moderate'', ''severe'']"

definition predict_severity ::
  "'m estimator \<Rightarrow> 'm ml_models \<Rightarrow> (string \<rightharpoonup> real) \<Rightarrow> (py_error + prediction) \<times> 'm ml_models" where
  "predict_severity est self features =
     (if \<not> is_trained self then (Inr (Error_record ''Models not trained yet''), self)
      else
        let feature_vector = prepare_feature_vector self features;
            prediction = est_predict est (models self) ''severity_classifier'' feature_vector;
            probabilities = est_predict_proba est (models self) ''severity_classifier'' feature_vector
        in (case (py_index severity_labels prediction, py_index probabilities prediction) of
              (Inr label, Inr p) \<Rightarrow>
                if length probabilities \<le> length severity_labels
                then Inr (Severity_record label p (zip severity_labels probabilities))
                else Inl IndexError
            | _ \<Rightarrow> Inl IndexError,
            self))"

definition quality_labels :: "string list" where
  "quality_labels = [''poor'', ''fair'', ''good'', ''excellent'']"

definition predict_quality ::
  "'m estimator \<Rightarrow> 'm ml_models \<Rightarrow> (string \<rightharpoonup> real) \<Rightarrow> (py_error + prediction) \<times> 'm ml_models" where
  "predict_quality est self features =
     (if \<not> is_trained self then (Inr (Error_record ''Models not trained yet''), self)
      else
        let feature_vector = prepare_feature_vector self features;
            prediction = est_predict est (models self) ''quality_assessor'' feature_vector;
            probabilities = est_predict_proba est (models self) ''quality_assessor'' feature_vector
        in (case (py_index quality_labels prediction, py_index probabilities prediction) of
              (Inr label, Inr p) \<Rightarrow>
                if length probabilities \<le> length quality_labels
                then Inr (Quality_record label p (real ((prediction + 1) * 25))
                            (zip quality_labels probabilities))
                else Inl IndexError
            | _ \<Rightarrow> Inl IndexError,
            self))"

definition predict_discrepancy ::
  "'m estimator \<Rightarrow> 'm ml_models \<Rightarrow> (string \<rightharpoonup> real) \<Rightarrow> (py_error + prediction) \<times> 'm ml_models" where
  "predict_discrepancy est self features =
     (if \<not> is_trained self then (Inr (Error_record ''Models not trained yet''), self)
      else
        let feature_vector = prepare_feature_vector self features;
            prediction = est_predict est (models self) ''discrepancy_detector'' feature_vector;
            probability = est_predict_proba est (models self) ''discrepancy_detector'' feature_vector
        in (case (py_index probability 1, py_index probability 0) of
              (Inr p1, Inr p0) \<Rightarrow>
                Inr (Discrepancy_record (prediction \<noteq> 0) (if prediction \<noteq> 0 then p1 else p0)
                       (get_risk_level p1))
            | _ \<Rightarrow> Inl IndexError,
            self))"

text \<open>The reads \<^verbatim>\<open>pred.get(key, default)\<close> of the aggregation.\<close>

fun get_confidence :: "prediction \<Rightarrow> real" where
  "get_confidence (Error_record e) = 0"
| "get_confidence (Pathology_record b c p1 p0) = c"
| "get_confidence (Severity_record l c ps) = c"
| "get_confidence (Quality_record l c s ps) = c"
| "get_confidence (Discrepancy_record b c r) = c"

fun get_has_pathology :: "prediction \<Rightarrow> bool" where
  "get_has_pathology (Pathology_record b c p1 p0) = b"
| "get_has_pathology other = False"

fun get_severity :: "prediction \<Rightarrow> string option" where
  "get_severity (Severity_record l c ps) = Some l"
| "get_severity other = None"

fun get_quality :: "prediction \<Rightarrow> string option" where
  "get_quality (Quality_record l c s ps) = Some l"
| "get_quality other = None"

fun get_has_discrepancy :: "prediction \<Rightarrow> bool" where
  "get_has_discrepancy (Discrepancy_record b c r) = b"
| "get_has_discrepancy other = False"

text \<open>
  The count-based rule, written the same way in \<^verbatim>\<open>comprehensive_analysis\<close> and in
  \<^verbatim>\<open>_generate_comprehensive_report\<close>:
  \<^verbatim>\<open>'high' if len(risk_factors) >= 2 else 'medium' if risk_factors else 'low'\<close>.
\<close>

definition overall_risk :: "string list \<Rightarrow> string" where
  "overall_risk risk_factors =
     (if length risk_factors \<ge> 2 then ''high''
      else if risk_factors \<noteq> [] then ''medium''
      else ''low'')"

record ml_analysis =
  pathology_analysis :: prediction
  severity_analysis :: prediction
  quality_analysis :: prediction
  discrepancy_analysis :: prediction
  overall_confidence :: real
  overall_risk_level :: string
  risk_factors :: "string list"

definition ml_risk_factors :: "prediction \<Rightarrow> prediction \<Rightarrow> prediction \<Rightarrow> prediction \<Rightarrow> string list" where
  "ml_risk_factors pathology_pred severity_pred quality_pred discrepancy_pred =
     (let rf0 = [];
          rf1 = (if get_has_pathology pathology_pred then rf0 @ [''pathology_detected''] else rf0);
          rf2 = (if get_severity severity_pred = Some ''severe'' then rf1 @ [''severe_findings''] else rf1);
          rf3 = (if get_quality quality_pred \<in> {Some ''poor'', Some ''fair''}
                 then rf2 @ [''quality_issues''] else rf2);
          rf4 = (if get_has_discrepancy discrepancy_pred then rf3 @ [''discrepancies_found''] else rf3)
      in rf4)"

text \<open>
  The part of \<^verbatim>\<open>comprehensive_analysis\<close> after the four predictions (the summary
  sentence \<^verbatim>\<open>ml_summary\<close> is left out).
\<close>

definition aggregate_predictions ::
  "prediction \<Rightarrow> prediction \<Rightarrow> prediction \<Rightarrow> prediction \<Rightarrow> ml_analysis" where
  "aggregate_predictions pathology_pred severity_pred quality_pred discrepancy_pred =
     (let rfs = ml_risk_factors pathology_pred severity_pred quality_pred discrepancy_pred
      in \<lparr>pathology_analysis = pathology_pred,
          severity_analysis = severity_pred,
          quality_analysis = quality_pred,
          discrepancy_analysis = discrepancy_pred,
          overall_confidence =
            np_mean [get_confidence pathology_pred, get_confidence severity_pred,
                     get_confidence quality_pred, get_confidence discrepancy_pred],
          overall_risk_level = overall_risk rfs,
          risk_factors = rfs\<rparr>)"

definition training_feature_names :: "string list" where
  "training_feature_names =
     [''contrast'', ''brightness'', ''sharpness'', ''symmetry_score'', ''edge_density'',
      ''word_count'', ''medical_term_count'', ''sentence_count'', ''completeness_score'',
      ''clarity_score'', ''text_image_agreement'', ''finding_count_text'',
      ''finding_count_image'', ''confidence_variance'']"

definition train_models :: "'m estimator \<Rightarrow> 'm ml_models \<Rightarrow> 'm ml_models" where
  "train_models est self =
     self\<lparr>models := est_fit est (models self),
          feature_names := training_feature_names,
          is_trained := True\<rparr>"

definition comprehensive_analysis ::
  "'m estimator \<Rightarrow> 'm ml_models \<Rightarrow> (string \<rightharpoonup> real) \<Rightarrow> (py_error + ml_analysis) \<times> 'm ml_models" where
  "comprehensive_analysis est self features =
     (let self0 = (if \<not> is_trained self then train_models est self else self);
          (r1, self1) = predict_pathology est self0 features
      in case r1 of Inl e \<Rightarrow> (Inl e, self1)
         | Inr pathology_pred \<Rightarrow>
      (let (r2, self2) = predict_severity est self1 features
       in case r2 of Inl e \<Rightarrow> (Inl e, self2)
          | Inr severity_pred \<Rightarrow>
      (let (r3, self3) = predict_quality est self2 features
       in case r3 of Inl e \<Rightarrow> (Inl e, self3)
          | Inr quality_pred \<Rightarrow>
      (let (r4, self4) = predict_discrepancy est self3 features
       in case r4 of Inl e \<Rightarrow> (Inl e, self4)
          | Inr discrepancy_pred \<Rightarrow>
              (Inr (aggregate_predictions pathology_pred severity_pred quality_pred
                      discrepancy_pred), self4)))))"

section \<open>The case verdict of run\_analysis.py\<close>

text \<open>
  The risk and confidence part of \<^verbatim>\<open>_generate_comprehensive_report\<close>:
  \<^verbatim>\<open>report_quality\<close> enters through its \<^verbatim>\<open>overall_score\<close>.
\<close>

record verdict =
  v_risk_level :: string
  v_confidence :: real
  v_risk_factors :: "string list"

definition report_risk_factors ::
  "ml_analysis \<Rightarrow> 'a comparison \<Rightarrow> real \<Rightarrow> image_result list \<Rightarrow> string list" where
  "report_risk_factors ml cross_modal_analysis overall_score image_results =
     (let rf0 = [];
          rf1 = (if get_has_pathology (pathology_analysis ml)
                 then rf0 @ [''ML detected pathology''] else rf0);
          rf2 = (if total_discrepancies cross_modal_analysis > 0
                 then rf1 @ [''Cross-modal discrepancies found''] else rf1);
          rf3 = (if overall_score < 70 then rf2 @ [''Report quality issues''] else rf2);
          rf4 = (if list_ex (\<lambda>img. (case ir_overall_quality_score img of None \<Rightarrow> 100 | Some q \<Rightarrow> q) < 60)
                      (filter ir_success image_results)
                 then rf3 @ [''Image quality issues''] else rf3)
      in rf4)"

definition generate_comprehensive_report ::
  "ml_analysis \<Rightarrow> 'a comparison \<Rightarrow> real \<Rightarrow> image_result list \<Rightarrow> verdict" where
  "generate_comprehensive_report ml cross_modal_analysis overall_score image_results =
     (let rfs = report_risk_factors ml cross_modal_analysis overall_score image_results;
          confidences = [overall_confidence ml,
                         real_of_int (cross_modal_confidence cross_modal_analysis) / 100,
                         overall_score / 100];
          overall = (sum_list confidences / real (length confidences)) * 100
      in \<lparr>v_risk_level = overall_risk rfs,
          v_confidence = round1 overall,
          v_risk_factors = rfs\<rparr>)"

text \<open>The order of the three risk levels.\<close>

definition risk_rank :: "string \<Rightarrow> nat" where
  "risk_rank level = (if level = ''high'' then 2 else if level = ''medium'' then 1 else 0)"

section \<open>The reconciliation loops in closed form\<close>

lemma matching_image_finding_None:
  "(matching_image_finding tf imgs = None) = (\<not> list_ex (inline_match tf) imgs)"
  by (induction imgs) auto

lemma matching_text_finding_None:
  "(matching_text_finding img tfs = None) = (\<not> list_ex (\<lambda>tf. inline_match tf img) tfs)"
  by (induction tfs) auto

lemma text_loop_a_discrepancies:
  "fst (text_loop_a tfs imgs (ds, ags)) =
     ds @ map false_positive_a (filter (\<lambda>tf. \<not> list_ex (inline_match tf) imgs) tfs)"
proof (induction tfs arbitrary: ds ags)
  case Nil
  show ?case by simp
next
  case (Cons tf tfs)
  show ?case
  proof (cases "matching_image_finding tf imgs")
    case None
    then show ?thesis using Cons.IH matching_image_finding_None [of tf imgs] by simp
  next
    case (Some m)
    then show ?thesis using Cons.IH matching_image_finding_None [of tf imgs] by simp
  qed
qed

lemma text_loop_a_agreements:
  "length (snd (text_loop_a tfs imgs (ds, ags))) =
     length ags + length (filter (\<lambda>tf. list_ex (inline_match tf) imgs) tfs)"
proof (induction tfs arbitrary: ds ags)
  case Nil
  show ?case by simp
next
  case (Cons tf tfs)
  show ?case
  proof (cases "matching_image_finding tf imgs")
    case None
    then show ?thesis using Cons.IH matching_image_finding_None [of tf imgs] by simp
  next
    case (Some m)
    then show ?thesis using Cons.IH matching_image_finding_None [of tf imgs] by simp
  qed
qed

lemma image_loop_a_discrepancies:
  "image_loop_a imgs tp ds =
     ds @ map false_negative_a (filter (\<lambda>img. \<not> list_ex (\<lambda>tf. inline_match tf img) tp) imgs)"
proof (induction imgs arbitrary: ds)
  case Nil
  show ?case by simp
next
  case (Cons img imgs)
  show ?case
    using Cons.IH matching_text_finding_None [of img tp]
    by (cases "matching_text_finding img tp") simp_all
qed

lemma inner_text_loop_c_matched:
  "fst (inner_text_loop_c tf imgs ags) = list_ex (findings_match tf) imgs"
  by (induction imgs) auto

lemma inner_text_loop_c_length:
  "length (snd (inner_text_loop_c tf imgs ags)) =
     length ags + (if list_ex (findings_match tf) imgs then 1 else 0)"
  by (induction imgs) auto

lemma inner_image_loop_c_matched:
  "inner_image_loop_c img tfs = list_ex (\<lambda>tf. findings_match tf img) tfs"
  by (induction tfs) auto

lemma text_loop_c_discrepancies:
  "fst (text_loop_c tfs imgs (ds, ags)) =
     ds @ map false_positive_c (filter (\<lambda>tf. \<not> list_ex (findings_match tf) imgs) tfs)"
proof (induction tfs arbitrary: ds ags)
  case Nil
  show ?case by simp
next
  case (Cons tf tfs)
  obtain m ags' where r: "inner_text_loop_c tf imgs ags = (m, ags')"
    by (cases "inner_text_loop_c tf imgs ags")
  then have "m = list_ex (findings_match tf) imgs"
    using inner_text_loop_c_matched [of tf imgs ags] by simp
  then show ?case using r Cons.IH by simp
qed

lemma text_loop_c_agreements:
  "length (snd (text_loop_c tfs imgs (ds, ags))) =
     length ags + length (filter (\<lambda>tf. list_ex (findings_match tf) imgs) tfs)"
proof (induction tfs arbitrary: ds ags)
  case Nil
  show ?case by simp
next
  case (Cons tf tfs)
  obtain m ags' where r: "inner_text_loop_c tf imgs ags = (m, ags')"
    by (cases "inner_text_loop_c tf imgs ags")
  then have "m = list_ex (findings_match tf) imgs"
    and "length ags' = length ags + (if list_ex (findings_match tf) imgs then 1 else 0)"
    using inner_text_loop_c_matched [of tf imgs ags] inner_text_loop_c_length [of tf imgs ags]
    by simp_all
  then show ?case using r Cons.IH by simp
qed

lemma image_loop_c_discrepancies:
  "image_loop_c imgs tp ds =
     ds @ map false_negative_c (filter (\<lambda>img. \<not> list_ex (\<lambda>tf. findings_match tf img) tp) imgs)"
  by (induction imgs arbitrary: ds) (simp_all add: inner_image_loop_c_matched)

lemma compare_discrepancies:
  "discrepancies (compare_image_and_text imgs tfs) =
     map false_positive_a
       (filter (\<lambda>tf. \<not> list_ex (inline_match tf) imgs) (filter is_pathological tfs))
     @ map false_negative_a
       (filter (\<lambda>img. \<not> list_ex (\<lambda>tf. inline_match tf img) (filter is_pathological tfs)) imgs)"
proof -
  obtain ds1 ags where r: "text_loop_a (filter is_pathological tfs) imgs ([], []) = (ds1, ags)"
    by (cases "text_loop_a (filter is_pathological tfs) imgs ([], [])")
  then have "ds1 = map false_positive_a
       (filter (\<lambda>tf. \<not> list_ex (inline_match tf) imgs) (filter is_pathological tfs))"
    using text_loop_a_discrepancies [of "filter is_pathological tfs" imgs "[]" "[]"] by simp
  then show ?thesis
    using r by (simp add: compare_image_and_text_def image_loop_a_discrepancies Let_def)
qed

lemma compare_agreements:
  "length (agreements (compare_image_and_text imgs tfs)) =
     length (filter (\<lambda>tf. list_ex (inline_match tf) imgs) (filter is_pathological tfs))"
proof -
  obtain ds1 ags where r: "text_loop_a (filter is_pathological tfs) imgs ([], []) = (ds1, ags)"
    by (cases "text_loop_a (filter is_pathological tfs) imgs ([], [])")
  then have "length ags =
      length (filter (\<lambda>tf. list_ex (inline_match tf) imgs) (filter is_pathological tfs))"
    using text_loop_a_agreements [of "filter is_pathological tfs" imgs "[]" "[]"] by simp
  then show ?thesis
    using r by (simp add: compare_image_and_text_def Let_def)
qed

lemma cross_modal_discrepancies:
  "discrepancies (perform_cross_modal_analysis nlp irs) =
     map false_positive_c
       (filter (\<lambda>tf. \<not> list_ex (findings_match tf) (image_pathology_of irs []))
          (filter is_pathological nlp))
     @ map false_negative_c
       (filter (\<lambda>img. \<not> list_ex (\<lambda>tf. findings_match tf img) (filter is_pathological nlp))
          (image_pathology_of irs []))"
proof -
  let ?tp = "filter is_pathological nlp" and ?ip = "image_pathology_of irs []"
  obtain ds1 ags where r: "text_loop_c ?tp ?ip ([], []) = (ds1, ags)"
    by (cases "text_loop_c ?tp ?ip ([], [])")
  then have "ds1 = map false_positive_c (filter (\<lambda>tf. \<not> list_ex (findings_match tf) ?ip) ?tp)"
    using text_loop_c_discrepancies [of ?tp ?ip "[]" "[]"] by simp
  then show ?thesis
    using r by (simp add: perform_cross_modal_analysis_def image_loop_c_discrepancies Let_def)
qed

lemma cross_modal_agreements:
  "length (agreements (perform_cross_modal_analysis nlp irs)) =
     length (filter (\<lambda>tf. list_ex (findings_match tf) (image_pathology_of irs []))
               (filter is_pathological nlp))"
proof -
  let ?tp = "filter is_pathological nlp" and ?ip = "image_pathology_of irs []"
  obtain ds1 ags where r: "text_loop_c ?tp ?ip ([], []) = (ds1, ags)"
    by (cases "text_loop_c ?tp ?ip ([], [])")
  then have "length ags = length (filter (\<lambda>tf. list_ex (findings_match tf) ?ip) ?tp)"
    using text_loop_c_agreements [of ?tp ?ip "[]" "[]"] by simp
  then show ?thesis
    using r by (simp add: perform_cross_modal_analysis_def Let_def)
qed

section \<open>Properties of the matchers\<close>

lemma synonym_loop_commute:
  "synonym_loop syns a b = synonym_loop syns b a"
  by (induction syns a b rule: synonym_loop.induct) auto

text \<open>
  Claim C2. The finding matcher is symmetric in its two terms: the synonym-aware test of
  \<^verbatim>\<open>_findings_match\<close> and the substring test inlined in
  \<^verbatim>\<open>compare_image_and_text\<close> give the same answer when the two terms are
  exchanged, both on the terms and on the findings that carry them.
\<close>

theorem C2_matcher_symmetric:
  "terms_match a b = terms_match b a
   \<and> substring_match a b = substring_match b a
   \<and> findings_match (tf\<lparr>tf_finding := s\<rparr>) (im\<lparr>img_type := t\<rparr>)
       = findings_match (tf\<lparr>tf_finding := t\<rparr>) (im\<lparr>img_type := s\<rparr>)
   \<and> inline_match (tf\<lparr>tf_finding := s\<rparr>) (im\<lparr>img_type := t\<rparr>)
       = inline_match (tf\<lparr>tf_finding := t\<rparr>) (im\<lparr>img_type := s\<rparr>)"
proof -
  have t: "terms_match x y = terms_match y x" for x y
    unfolding terms_match_def using synonym_loop_commute [of synonyms x y] by auto
  have s: "substring_match x y = substring_match y x" for x y
    unfolding substring_match_def by auto
  show ?thesis
    unfolding findings_match_def inline_match_def
    using t [of a b] s [of a b] t [of "lower s" "lower t"] s [of "lower s" "lower t"]
    by simp
qed

section \<open>Properties of the reconciliation\<close>

lemma false_positive_types [simp]:
  "d_type (false_positive_a tf) = ''false_positive''"
  "d_type (false_positive_c tf) = ''false_positive''"
  "d_type (false_negative_a img) = ''false_negative''"
  "d_type (false_negative_c img) = ''false_negative''"
  by (simp_all add: false_positive_a_def false_positive_c_def false_negative_a_def
        false_negative_c_def)

lemma length_filter_split:
  "length (filter P xs) + length (filter (\<lambda>x. \<not> P x) xs) = length xs"
  by (induction xs) auto

text \<open>
  Claim C10. In both reconciliation functions every pathological text finding yields
  exactly one output record, an agreement or a \<^verbatim>\<open>false_positive\<close> discrepancy: the
  number of agreements plus the number of \<^verbatim>\<open>false_positive\<close> discrepancies is the
  number of pathological text findings. (The witness below has one image finding that
  stands in two agreements.)
\<close>

theorem C10_one_record_per_text_finding:
  "length (agreements (compare_image_and_text imgs tfs))
     + length (filter (\<lambda>d. d_type d = ''false_positive'')
                 (discrepancies (compare_image_and_text imgs tfs)))
     = length (filter is_pathological tfs)
   \<and> length (agreements (perform_cross_modal_analysis nlp irs))
     + length (filter (\<lambda>d. d_type d = ''false_positive'')
                 (discrepancies (perform_cross_modal_analysis nlp irs)))
     = length (filter is_pathological nlp)"
proof
  let ?tp = "filter is_pathological tfs"
  have "filter (\<lambda>d. d_type d = ''false_positive'') (discrepancies (compare_image_and_text imgs tfs))
        = map false_positive_a (filter (\<lambda>tf. \<not> list_ex (inline_match tf) imgs) ?tp)"
    by (simp add: compare_discrepancies filter_map o_def)
  then show "length (agreements (compare_image_and_text imgs tfs))
     + length (filter (\<lambda>d. d_type d = ''false_positive'')
                 (discrepancies (compare_image_and_text imgs tfs))) = length ?tp"
    using length_filter_split [of "\<lambda>tf. list_ex (inline_match tf) imgs" ?tp]
    by (simp add: compare_agreements)
next
  let ?tp = "filter is_pathological nlp" and ?ip = "image_pathology_of irs []"
  have "filter (\<lambda>d. d_type d = ''false_positive'') (discrepancies (perform_cross_modal_analysis nlp irs))
        = map false_positive_c (filter (\<lambda>tf. \<not> list_ex (findings_match tf) ?ip) ?tp)"
    by (simp add: cross_modal_discrepancies filter_map o_def)
  then show "length (agreements (perform_cross_modal_analysis nlp irs))
     + length (filter (\<lambda>d. d_type d = ''false_positive'')
                 (discrepancies (perform_cross_modal_analysis nlp irs))) = length ?tp"
    using length_filter_split [of "\<lambda>tf. list_ex (findings_match tf) ?ip" ?tp]
    by (simp add: cross_modal_agreements)
qed

theorem C10_witness:
  "length (filter (\<lambda>d. d_type d = ''false_positive'')
     (discrepancies (compare_image_and_text
        [\<lparr>img_type = ''Opacity'', img_severity = Some ''Moderate'', img_confidence = 87\<rparr>]
        [\<lparr>tf_type = Some ''pathological'', tf_finding = ''Opacity'',
          tf_severity = Some ''mild'', tf_confidence = 85\<rparr>,
         \<lparr>tf_type = Some ''pathological'', tf_finding = ''Lung opacity'',
          tf_severity = Some ''mild'', tf_confidence = 80\<rparr>]))) = 0
   \<and> map aa_image_confidence
     (agreements (compare_image_and_text
        [\<lparr>img_type = ''Opacity'', img_severity = Some ''Moderate'', img_confidence = 87\<rparr>]
        [\<lparr>tf_type = Some ''pathological'', tf_finding = ''Opacity'',
          tf_severity = Some ''mild'', tf_confidence = 85\<rparr>,
         \<lparr>tf_type = Some ''pathological'', tf_finding = ''Lung opacity'',
          tf_severity = Some ''mild'', tf_confidence = 80\<rparr>])) = [87, 87]"
proof -
  let ?imgs = "[\<lparr>img_type = ''Opacity'', img_severity = Some ''Moderate'', img_confidence = 87\<rparr>]"
  let ?tfs = "[\<lparr>tf_type = Some ''pathological'', tf_finding = ''Opacity'',
          tf_severity = Some ''mild'', tf_confidence = 85\<rparr>,
         \<lparr>tf_type = Some ''pathological'', tf_finding = ''Lung opacity'',
          tf_severity = Some ''mild'', tf_confidence = 80\<rparr>]"
  have ags: "map aa_image_confidence (agreements (compare_image_and_text ?imgs ?tfs)) = [87, 87]"
    by code_simp
  then have "length (map aa_image_confidence (agreements (compare_image_and_text ?imgs ?tfs))) = 2"
    by simp
  then have n: "length (agreements (compare_image_and_text ?imgs ?tfs)) = 2"
    by simp
  have tp: "length (filter is_pathological ?tfs) = 2"
    by (simp add: is_pathological_def)
  from C10_one_record_per_text_finding [where imgs = ?imgs and tfs = ?tfs]
  have "length (filter (\<lambda>d. d_type d = ''false_positive'')
          (discrepancies (compare_image_and_text ?imgs ?tfs))) = 0"
    unfolding n tp by simp
  with ags show ?thesis by simp
qed

text \<open>
  Claim C5, as amended. The discrepancies of a reconciliation are the false positives of
  the unmatched pathological text findings, in order, followed by the false negatives
  of the unmatched image findings, in order. A false positive has kind
  \<^verbatim>\<open>false_positive\<close> and confidence \<open>100 - text_finding.confidence\<close>, a false
  negative has kind \<^verbatim>\<open>false_negative\<close> and the confidence of the image finding.
  In \<^verbatim>\<open>_perform_cross_modal_analysis\<close> the severity is the severity of the finding
  (\<^verbatim>\<open>unknown\<close> when the finding carries none); in
  \<^verbatim>\<open>compare_image_and_text\<close> it is the constant \<^verbatim>\<open>medium\<close> for a false
  positive and \<^verbatim>\<open>high\<close> for a false negative.
\<close>

theorem C5_discrepancy_fields:
  "discrepancies (perform_cross_modal_analysis nlp irs) =
     map false_positive_c
       (filter (\<lambda>tf. \<not> list_ex (findings_match tf) (image_pathology_of irs []))
          (filter is_pathological nlp))
     @ map false_negative_c
       (filter (\<lambda>img. \<not> list_ex (\<lambda>tf. findings_match tf img) (filter is_pathological nlp))
          (image_pathology_of irs []))
   \<and> d_type (false_positive_c tf) = ''false_positive''
   \<and> d_confidence (false_positive_c tf) = 100 - tf_confidence tf
   \<and> d_severity (false_positive_c tf) = (case tf_severity tf of None \<Rightarrow> ''unknown'' | Some s \<Rightarrow> s)
   \<and> d_type (false_negative_c img) = ''false_negative''
   \<and> d_confidence (false_negative_c img) = img_confidence img
   \<and> d_severity (false_negative_c img) = (case img_severity img of None \<Rightarrow> ''unknown'' | Some s \<Rightarrow> s)
   \<and> discrepancies (compare_image_and_text imgs tfs) =
     map false_positive_a
       (filter (\<lambda>tf. \<not> list_ex (inline_match tf) imgs) (filter is_pathological tfs))
     @ map false_negative_a
       (filter (\<lambda>img. \<not> list_ex (\<lambda>tf. inline_match tf img) (filter is_pathological tfs)) imgs)
   \<and> d_type (false_positive_a tf) = ''false_positive''
   \<and> d_confidence (false_positive_a tf) = 100 - tf_confidence tf
   \<and> d_severity (false_positive_a tf) = ''medium''
   \<and> d_type (false_negative_a img) = ''false_negative''
   \<and> d_confidence (false_negative_a img) = img_confidence img
   \<and> d_severity (false_negative_a img) = ''high''"
  using cross_modal_discrepancies [of nlp irs] compare_discrepancies [of imgs tfs]
  by (simp add: false_positive_a_def false_positive_c_def false_negative_a_def
        false_negative_c_def)

text \<open>
  The claim as stated fails for \<^verbatim>\<open>compare_image_and_text\<close>: a text finding of
  severity \<^verbatim>\<open>high\<close> with no image finding gives a discrepancy of severity
  \<^verbatim>\<open>medium\<close>.
\<close>

theorem C5_counterexample:
  "map d_type
     (discrepancies (compare_image_and_text []
        [\<lparr>tf_type = Some ''pathological'', tf_finding = ''Fracture'',
          tf_severity = Some ''high'', tf_confidence = 90\<rparr>]))
   = [''false_positive'']
   \<and> map d_severity
     (discrepancies (compare_image_and_text []
        [\<lparr>tf_type = Some ''pathological'', tf_finding = ''Fracture'',
          tf_severity = Some ''high'', tf_confidence = 90\<rparr>]))
   \<noteq> [''high'']"
  by code_simp

theorem C5_witness:
  "map (\<lambda>d. (d_type d, d_severity d, d_confidence d))
     (discrepancies (perform_cross_modal_analysis
        [\<lparr>tf_type = Some ''pathological'', tf_finding = ''Fracture'',
          tf_severity = Some ''high'', tf_confidence = 90\<rparr>]
        [\<lparr>ir_success = True,
          ir_pathology_findings =
            Some [\<lparr>img_type = ''Nodule'', img_severity = Some ''mild'', img_confidence = 60\<rparr>],
          ir_overall_quality_score = Some 80\<rparr>]))
   = [(''false_positive'', ''high'', 10), (''false_negative'', ''mild'', 60)]"
proof -
  let ?tf = "\<lparr>tf_type = Some ''pathological'', tf_finding = ''Fracture'',
          tf_severity = Some ''high'', tf_confidence = 90\<rparr>"
  let ?img = "\<lparr>img_type = ''Nodule'', img_severity = Some ''mild'', img_confidence = 60\<rparr>"
  let ?irs = "[\<lparr>ir_success = True, ir_pathology_findings = Some [?img],
          ir_overall_quality_score = Some 80\<rparr>]"
  have u1: "\<not> findings_match ?tf ?img" by code_simp
  have ip: "image_pathology_of ?irs [] = [?img]" by simp
  have tp: "filter is_pathological [?tf] = [?tf]" by (simp add: is_pathological_def)
  from C5_discrepancy_fields [of "[?tf]" ?irs ?tf ?img "[]" "[]"]
  show ?thesis
    unfolding ip tp using u1 by simp
qed

lemma round_half_even_le:
  "y \<le> of_int n \<Longrightarrow> round_half_even y \<le> n"
proof -
  assume le: "y \<le> of_int n"
  then have f: "\<lfloor>y\<rfloor> \<le> n" by (simp add: floor_le_iff)
  show ?thesis
  proof (cases "\<lfloor>y\<rfloor> = n")
    case True
    then have "of_int n \<le> y" using of_int_floor_le [of y] by simp
    with le have "y = of_int n" by simp
    then show ?thesis by (simp add: round_half_even_def)
  next
    case False
    with f have "\<lfloor>y\<rfloor> + 1 \<le> n" by simp
    then show ?thesis by (simp add: round_half_even_def Let_def)
  qed
qed

lemma round1_le_100:
  "x \<le> 100 \<Longrightarrow> round1 x \<le> 100"
  using round_half_even_le [of "x * 10" 1000] by (simp add: round1_def)

lemma quotient_le_100:
  assumes "2 * a \<le> t" and "0 < (t::nat)"
  shows "real (2 * a) / real (max t 1) * 100 \<le> 100"
proof -
  have "real (2 * a) \<le> real t" using assms(1) by (simp only: of_nat_le_iff)
  moreover have "max t 1 = t" using assms(2) by simp
  ultimately show ?thesis using assms(2) by (simp add: field_simps)
qed

text \<open>
  Claim C3, as amended. \<^verbatim>\<open>_perform_cross_modal_analysis\<close> returns
  \<open>min(100, 2 |agreements| / max(|text_pathology| + |image_pathology|, 1) * 100)\<close> for
  every input, so never more than 100. \<^verbatim>\<open>compare_image_and_text\<close> returns 100
  when there is no finding at all; when there is a finding and
  \<open>2 |agreements|\<close> does not exceed the number of findings it returns that quotient
  rounded to one decimal place, again at most 100.
\<close>

theorem C3_agreement_percentage:
  "agreement_percentage (perform_cross_modal_analysis nlp irs)
     = min 100 (real (2 * length (agreements (perform_cross_modal_analysis nlp irs)))
                / real (max (length (filter is_pathological nlp)
                             + length (image_pathology_of irs [])) 1) * 100)
   \<and> agreement_percentage (perform_cross_modal_analysis nlp irs) \<le> 100
   \<and> (length (filter is_pathological tfs) + length imgs = 0 \<longrightarrow>
        agreement_percentage (compare_image_and_text imgs tfs) = 100)
   \<and> (0 < length (filter is_pathological tfs) + length imgs
        \<and> 2 * length (agreements (compare_image_and_text imgs tfs))
            \<le> length (filter is_pathological tfs) + length imgs \<longrightarrow>
        agreement_percentage (compare_image_and_text imgs tfs)
          = round1 (real (2 * length (agreements (compare_image_and_text imgs tfs)))
                    / real (max (length (filter is_pathological tfs) + length imgs) 1) * 100)
        \<and> agreement_percentage (compare_image_and_text imgs tfs) \<le> 100)"
proof -
  have c: "agreement_percentage (perform_cross_modal_analysis nlp irs)
     = min 100 (real (2 * length (agreements (perform_cross_modal_analysis nlp irs)))
                / real (max (length (filter is_pathological nlp)
                             + length (image_pathology_of irs [])) 1) * 100)"
    by (simp add: perform_cross_modal_analysis_def Let_def split: prod.split)
  have a0: "agreement_percentage (compare_image_and_text imgs tfs) = 100"
    if "length (filter is_pathological tfs) + length imgs = 0"
  proof -
    have "round1 100 = 100" by (simp add: round1_def round_half_even_def)
    then show ?thesis using that
      by (simp add: compare_image_and_text_def Let_def split: prod.split)
  qed
  have a1: "agreement_percentage (compare_image_and_text imgs tfs)
          = round1 (real (2 * length (agreements (compare_image_and_text imgs tfs)))
                    / real (max (length (filter is_pathological tfs) + length imgs) 1) * 100)"
    if "0 < length (filter is_pathological tfs) + length imgs"
    using that
    by (simp add: compare_image_and_text_def Let_def split: prod.split)
  have a2: "agreement_percentage (compare_image_and_text imgs tfs) \<le> 100"
    if "0 < length (filter is_pathological tfs) + length imgs"
      and "2 * length (agreements (compare_image_and_text imgs tfs))
            \<le> length (filter is_pathological tfs) + length imgs"
    using a1 [OF that(1)] round1_le_100 [OF quotient_le_100 [OF that(2) that(1)]] by simp
  show ?thesis using c a0 a1 a2 by simp
qed

text \<open>
  The claim as stated fails for \<^verbatim>\<open>compare_image_and_text\<close>: with no findings it
  returns 100 where the formula gives 0, and with one agreement among three findings
  it returns the rounded 66.7.
\<close>

theorem C3_counterexample:
  "agreement_percentage (compare_image_and_text [] [])
     \<noteq> min 100 (real (2 * length (agreements (compare_image_and_text [] [])))
                / real (max (length (filter is_pathological [])
                             + length ([] :: image_finding list)) 1) * 100)
   \<and> agreement_percentage
       (compare_image_and_text
          [\<lparr>img_type = ''Opacity'', img_severity = Some ''Moderate'', img_confidence = 87\<rparr>]
          [\<lparr>tf_type = Some ''pathological'', tf_finding = ''Opacity'',
            tf_severity = Some ''mild'', tf_confidence = 85\<rparr>,
           \<lparr>tf_type = Some ''pathological'', tf_finding = ''Fracture'',
            tf_severity = Some ''high'', tf_confidence = 90\<rparr>])
     \<noteq> min 100 (real (2 * length (agreements
          (compare_image_and_text
            [\<lparr>img_type = ''Opacity'', img_severity = Some ''Moderate'', img_confidence = 87\<rparr>]
            [\<lparr>tf_type = Some ''pathological'', tf_finding = ''Opacity'',
              tf_severity = Some ''mild'', tf_confidence = 85\<rparr>,
             \<lparr>tf_type = Some ''pathological'', tf_finding = ''Fracture'',
              tf_severity = Some ''high'', tf_confidence = 90\<rparr>])))
                / real (max (length (filter is_pathological
            [\<lparr>tf_type = Some ''pathological'', tf_finding = ''Opacity'',
              tf_severity = Some ''mild'', tf_confidence = 85\<rparr>,
             \<lparr>tf_type = Some ''pathological'', tf_finding = ''Fracture'',
              tf_severity = Some ''high'', tf_confidence = 90\<rparr>])
                  + length [\<lparr>img_type = ''Opacity'', img_severity = Some ''Moderate'',
                             img_confidence = 87\<rparr>]) 1) * 100)"
  by code_simp

theorem C3_witness:
  "agreement_percentage
     (compare_image_and_text
        [\<lparr>img_type = ''Opacity'', img_severity = Some ''Moderate'', img_confidence = 87\<rparr>]
        [\<lparr>tf_type = Some ''pathological'', tf_finding = ''Opacity'',
          tf_severity = Some ''mild'', tf_confidence = 85\<rparr>,
         \<lparr>tf_type = Some ''pathological'', tf_finding = ''Fracture'',
          tf_severity = Some ''high'', tf_confidence = 90\<rparr>]) = 667 / 10
   \<and> agreement_percentage (compare_image_and_text [] []) = 100
   \<and> agreement_percentage
       (perform_cross_modal_analysis
          [\<lparr>tf_type = Some ''pathological'', tf_finding = ''Pneumonia'',
            tf_severity = Some ''moderate'', tf_confidence = 85\<rparr>]
          [\<lparr>ir_success = True,
            ir_pathology_findings =
              Some [\<lparr>img_type = ''Consolidation'', img_severity = Some ''moderate'',
                     img_confidence = 70\<rparr>],
            ir_overall_quality_score = Some 80\<rparr>]) \<le> 100"
proof -
  let ?imgs = "[\<lparr>img_type = ''Opacity'', img_severity = Some ''Moderate'', img_confidence = 87\<rparr>]"
  let ?tfs = "[\<lparr>tf_type = Some ''pathological'', tf_finding = ''Opacity'',
          tf_severity = Some ''mild'', tf_confidence = 85\<rparr>,
         \<lparr>tf_type = Some ''pathological'', tf_finding = ''Fracture'',
          tf_severity = Some ''high'', tf_confidence = 90\<rparr>]"
  let ?nlp = "[\<lparr>tf_type = Some ''pathological'', tf_finding = ''Pneumonia'',
            tf_severity = Some ''moderate'', tf_confidence = 85\<rparr>]"
  let ?irs = "[\<lparr>ir_success = True,
            ir_pathology_findings =
              Some [\<lparr>img_type = ''Consolidation'', img_severity = Some ''moderate'',
                     img_confidence = 70\<rparr>],
            ir_overall_quality_score = Some 80\<rparr>]"
  have n: "length (filter is_pathological ?tfs) + length ?imgs = 3"
    by (simp add: is_pathological_def)
  have a: "length (agreements (compare_image_and_text ?imgs ?tfs)) = 1"
    by code_simp
  have r: "round1 (real (2 * 1) / real (max 3 1) * 100) = 667 / 10"
    by code_simp
  have "agreement_percentage (compare_image_and_text ?imgs ?tfs)
          = round1 (real (2 * 1) / real (max 3 1) * 100)"
    using C3_agreement_percentage [where nlp = ?nlp and irs = ?irs and tfs = ?tfs and imgs = ?imgs]
    unfolding n a by simp
  then have one: "agreement_percentage (compare_image_and_text ?imgs ?tfs) = 667 / 10"
    using r by simp
  have two: "agreement_percentage (compare_image_and_text [] []) = 100"
    using C3_agreement_percentage [where nlp = ?nlp and irs = ?irs and tfs = "[]" and imgs = "[]"]
    by simp
  have three: "agreement_percentage (perform_cross_modal_analysis ?nlp ?irs) \<le> 100"
    using C3_agreement_percentage [where nlp = ?nlp and irs = ?irs and tfs = ?tfs and imgs = ?imgs]
    by blast
  show ?thesis using one two three by blast
qed

text \<open>
  Claim C1, evaluated on the code. With no pathological text finding and no image
  finding, \<^verbatim>\<open>_perform_cross_modal_analysis\<close> reports no discrepancy and an
  agreement of 0 per cent, where the claim says 100; \<^verbatim>\<open>compare_image_and_text\<close>
  returns 100 there (lemma \<open>compare_no_findings\<close> below).
\<close>

theorem C1_cross_modal_no_findings:
  "agreement_percentage
     (perform_cross_modal_analysis
        [\<lparr>tf_type = Some ''normal'', tf_finding = ''Clear appearance'',
          tf_severity = None, tf_confidence = 90\<rparr>] []) = 0
   \<and> discrepancies
     (perform_cross_modal_analysis
        [\<lparr>tf_type = Some ''normal'', tf_finding = ''Clear appearance'',
          tf_severity = None, tf_confidence = 90\<rparr>] []) = []"
  by code_simp

text \<open>
  Claim C4, evaluated on the code. \<^verbatim>\<open>compare_image_and_text\<close> does not clamp
  \<^verbatim>\<open>cross_modal_confidence\<close> at 0: seven unmatched text findings give \<open>-5\<close>.
  \<^verbatim>\<open>_perform_cross_modal_analysis\<close> does clamp (lemma \<open>cross_modal_confidence_c\<close>
  below).
\<close>

theorem C4_compare_negative_confidence:
  "cross_modal_confidence
     (compare_image_and_text []
        (map (\<lambda>t. \<lparr>tf_type = Some ''pathological'', tf_finding = t,
                    tf_severity = Some ''moderate'', tf_confidence = 85\<rparr>)
           [''Pneumonia'', ''Consolidation'', ''Opacity'', ''Effusion'', ''Pneumothorax'',
            ''Fracture'', ''Nodule''])) = - 5"
  by code_simp

lemma cross_modal_confidence_c:
  "cross_modal_confidence (perform_cross_modal_analysis nlp irs)
     = max 0 (100 - 15 * int (length (discrepancies (perform_cross_modal_analysis nlp irs))))
   \<and> 0 \<le> cross_modal_confidence (perform_cross_modal_analysis nlp irs)"
  by (simp add: perform_cross_modal_analysis_def Let_def mult.commute split: prod.split)

lemma compare_no_findings:
  "filter is_pathological tfs = [] \<Longrightarrow>
     discrepancies (compare_image_and_text [] tfs) = []
     \<and> agreement_percentage (compare_image_and_text [] tfs) = 100"
  by (simp add: compare_image_and_text_def round1_def round_half_even_def)

lemma cross_modal_no_findings:
  "filter is_pathological nlp = [] \<Longrightarrow> image_pathology_of irs [] = [] \<Longrightarrow>
     discrepancies (perform_cross_modal_analysis nlp irs) = []
     \<and> agreement_percentage (perform_cross_modal_analysis nlp irs) = 0"
  by (simp add: perform_cross_modal_analysis_def)

section \<open>Properties of the risk and confidence synthesis\<close>

lemma quality_risk_loop_eq:
  "quality_risk_loop ias n =
     n + 20 * length (filter (\<lambda>ia. case ia_overall_quality ia of None \<Rightarrow> False | Some q \<Rightarrow> q < 60) ias)"
  by (induction ias arbitrary: n) (auto split: option.splits)

text \<open>
  Claim C7. The weighted risk score of \<^verbatim>\<open>_calculate_risk_level\<close> is 20 for each
  discrepancy, 15 for each text inconsistency, 25 once when the completeness score is
  below 70, and 20 for each image analysis whose overall quality is below 60; the level
  is high from 60, medium from 30 and low otherwise.
\<close>

theorem C7_weighted_risk_level:
  "calculate_risk_level comparison_result text_analysis image_analysis =
     (let risk_score =
            20 * length (discrepancies comparison_result)
            + 15 * length (ta_inconsistencies text_analysis)
            + (if ta_completeness_score text_analysis < 70 then 25 else 0)
            + 20 * length (filter (\<lambda>ia. case ia_overall_quality ia of
                                            None \<Rightarrow> False | Some q \<Rightarrow> q < 60) image_analysis)
      in if 60 \<le> risk_score then ''high''
         else if 30 \<le> risk_score then ''medium''
         else ''low'')"
  by (simp add: calculate_risk_level_def quality_risk_loop_eq Let_def)

theorem C7_witness:
  "calculate_risk_level (perform_cross_modal_analysis [] [])
     \<lparr>ta_findings = [], ta_completeness_score = 50,
      ta_inconsistencies =
        [\<lparr>inc_type = ''contradiction'',
          inc_description = ''Report mentions both normal findings and pathology'',
          inc_severity = ''medium'', inc_confidence = 78\<rparr>],
      ta_confidence = 70\<rparr>
     [\<lparr>ia_overall_quality = Some 40, ia_pathology_findings = [],
       ia_processed_successfully = True\<rparr>]
   = ''high''"
proof -
  have d: "discrepancies (perform_cross_modal_analysis [] []) = []"
    by code_simp
  show ?thesis
    using C7_weighted_risk_level [where comparison_result = "perform_cross_modal_analysis [] []"
      and text_analysis = "\<lparr>ta_findings = [], ta_completeness_score = 50,
      ta_inconsistencies =
        [\<lparr>inc_type = ''contradiction'',
          inc_description = ''Report mentions both normal findings and pathology'',
          inc_severity = ''medium'', inc_confidence = 78\<rparr>],
      ta_confidence = 70\<rparr>"
      and image_analysis = "[\<lparr>ia_overall_quality = Some 40, ia_pathology_findings = [],
       ia_processed_successfully = True\<rparr>]"]
    unfolding d by simp
qed

lemma confidences_loop_eq:
  "confidences_loop ias cs = cs @ List.map_filter ia_overall_quality ias"
  by (induction ias arbitrary: cs) (auto simp: List.map_filter_simps split: option.splits)

text \<open>
  Claim C6, as amended. \<^verbatim>\<open>_calculate_overall_confidence\<close> (main.py) returns, for
  every input, the mean of the text confidence and the available image quality scores,
  plus 0.2 times the agreement percentage, minus 5 for each discrepancy, clamped to
  \<open>[30, 95]\<close>. \<^verbatim>\<open>_generate_comprehensive_report\<close> (run\_analysis.py) reports
  instead the mean of the classifier confidence, the cross-modal confidence over 100 and
  the report score over 100, times 100 and rounded to one decimal place, with no
  agreement bonus, no discrepancy penalty and no clamp.
\<close>

theorem C6_overall_confidence:
  "calculate_overall_confidence text_analysis image_analysis comparison_result
     = min 95 (max 30
         (sum_list (ta_confidence text_analysis # List.map_filter ia_overall_quality image_analysis)
            / real (length (ta_confidence text_analysis
                            # List.map_filter ia_overall_quality image_analysis))
          + 0.2 * agreement_percentage comparison_result
          - 5 * real (length (discrepancies comparison_result))))
   \<and> 30 \<le> calculate_overall_confidence text_analysis image_analysis comparison_result
   \<and> calculate_overall_confidence text_analysis image_analysis comparison_result \<le> 95
   \<and> v_confidence (generate_comprehensive_report ml cross_modal_analysis overall_score image_results)
     = round1 ((overall_confidence ml
                + real_of_int (cross_modal_confidence cross_modal_analysis) / 100
                + overall_score / 100) / 3 * 100)"
proof -
  have a: "calculate_overall_confidence text_analysis image_analysis comparison_result
     = min 95 (max 30
         (sum_list (ta_confidence text_analysis # List.map_filter ia_overall_quality image_analysis)
            / real (length (ta_confidence text_analysis
                            # List.map_filter ia_overall_quality image_analysis))
          + 0.2 * agreement_percentage comparison_result
          - 5 * real (length (discrepancies comparison_result))))"
    by (simp add: calculate_overall_confidence_def confidences_loop_eq np_mean_def Let_def
          mult.commute)
  have c: "v_confidence (generate_comprehensive_report ml cross_modal_analysis overall_score
                   image_results)
     = round1 ((overall_confidence ml
                + real_of_int (cross_modal_confidence cross_modal_analysis) / 100
                + overall_score / 100) / 3 * 100)"
    by (simp add: generate_comprehensive_report_def Let_def add.assoc)
  have b: "30 \<le> min 95 (max 30 x) \<and> min 95 (max 30 x) \<le> 95" for x :: real
    by simp
  show ?thesis
    using c b unfolding a by simp
qed

text \<open>
  The claim as stated fails for \<^verbatim>\<open>_generate_comprehensive_report\<close>: classifier
  confidences of 0.9, no discrepancy and a report score of 100 give 96.7, above 95.
\<close>

theorem C6_counterexample:
  "\<not> v_confidence
        (generate_comprehensive_report
           (aggregate_predictions
              (Pathology_record False 0.9 0.1 0.9)
              (Severity_record ''mild'' 0.9 [(''mild'', 0.9), (''moderate'', 0.1), (''severe'', 0)])
              (Quality_record ''good'' 0.9 75
                 [(''poor'', 0), (''fair'', 0), (''good'', 0.9), (''excellent'', 0.1)])
              (Discrepancy_record False 0.9 ''low''))
           (perform_cross_modal_analysis [] [])
           100 []) \<le> 95"
  by code_simp

theorem C6_witness:
  "calculate_overall_confidence
     \<lparr>ta_findings = [], ta_completeness_score = 100, ta_inconsistencies = [],
      ta_confidence = 60\<rparr>
     [\<lparr>ia_overall_quality = Some 50, ia_pathology_findings = [],
       ia_processed_successfully = True\<rparr>,
      \<lparr>ia_overall_quality = None, ia_pathology_findings = [],
       ia_processed_successfully = False\<rparr>]
     (compare_image_and_text [] [])
   = 75"
proof -
  have d: "discrepancies (compare_image_and_text [] []) = []"
    and p: "agreement_percentage (compare_image_and_text [] []) = 100"
    by code_simp+
  show ?thesis
    using C6_overall_confidence [where comparison_result = "compare_image_and_text [] []"
      and text_analysis = "\<lparr>ta_findings = [], ta_completeness_score = 100,
        ta_inconsistencies = [], ta_confidence = 60\<rparr>"
      and image_analysis = "[\<lparr>ia_overall_quality = Some 50, ia_pathology_findings = [],
       ia_processed_successfully = True\<rparr>,
      \<lparr>ia_overall_quality = None, ia_pathology_findings = [],
       ia_processed_successfully = False\<rparr>]", THEN conjunct1]
    unfolding d p by (simp add: List.map_filter_simps)
qed

lemma overall_risk_length_mono:
  "length xs \<le> length ys \<Longrightarrow> risk_rank (overall_risk xs) \<le> risk_rank (overall_risk ys)"
  by (auto simp: overall_risk_def risk_rank_def)

lemma report_risk_factors_length:
  "length (report_risk_factors ml cm s irs) =
     (if get_has_pathology (pathology_analysis ml) then 1 else 0)
     + (if total_discrepancies cm > 0 then 1 else 0)
     + (if s < 70 then 1 else 0)
     + (if list_ex (\<lambda>img. (case ir_overall_quality_score img of None \<Rightarrow> 100 | Some q \<Rightarrow> q) < 60)
             (filter ir_success irs) then 1 else 0)"
  by (simp add: report_risk_factors_def Let_def)

lemma ml_risk_factors_length:
  "length (ml_risk_factors p s q d) =
     (if get_has_pathology p then 1 else 0)
     + (if get_severity s = Some ''severe'' then 1 else 0)
     + (if get_quality q \<in> {Some ''poor'', Some ''fair''} then 1 else 0)
     + (if get_has_discrepancy d then 1 else 0)"
  by (simp add: ml_risk_factors_def Let_def)

text \<open>
  Claim C8. Under the count-based rule the risk level never moves backward when a risk
  factor is added: inserting a factor anywhere in the list keeps or raises the level,
  and at both sites that use the rule (\<^verbatim>\<open>_generate_comprehensive_report\<close> and
  \<^verbatim>\<open>comprehensive_analysis\<close>) inputs under which every risk condition that held
  before still holds give a level at least as high.
\<close>

theorem C8_risk_level_monotone:
  "risk_rank (overall_risk (xs @ ys)) \<le> risk_rank (overall_risk (xs @ f # ys))
   \<and> ((get_has_pathology (pathology_analysis ml) \<longrightarrow> get_has_pathology (pathology_analysis ml'))
       \<and> (total_discrepancies cm > 0 \<longrightarrow> total_discrepancies cm' > 0)
       \<and> (s < 70 \<longrightarrow> s' < 70)
       \<and> (list_ex (\<lambda>img. (case ir_overall_quality_score img of None \<Rightarrow> 100 | Some q \<Rightarrow> q) < 60)
             (filter ir_success irs)
           \<longrightarrow> list_ex (\<lambda>img. (case ir_overall_quality_score img of None \<Rightarrow> 100 | Some q \<Rightarrow> q) < 60)
             (filter ir_success irs'))
       \<longrightarrow> risk_rank (v_risk_level (generate_comprehensive_report ml cm s irs))
           \<le> risk_rank (v_risk_level (generate_comprehensive_report ml' cm' s' irs')))
   \<and> ((get_has_pathology p \<longrightarrow> get_has_pathology p')
       \<and> (get_severity sv = Some ''severe'' \<longrightarrow> get_severity sv' = Some ''severe'')
       \<and> (get_quality q \<in> {Some ''poor'', Some ''fair''}
           \<longrightarrow> get_quality q' \<in> {Some ''poor'', Some ''fair''})
       \<and> (get_has_discrepancy d \<longrightarrow> get_has_discrepancy d')
       \<longrightarrow> risk_rank (overall_risk_level (aggregate_predictions p sv q d))
           \<le> risk_rank (overall_risk_level (aggregate_predictions p' sv' q' d')))"
proof (intro conjI impI)
  show "risk_rank (overall_risk (xs @ ys)) \<le> risk_rank (overall_risk (xs @ f # ys))"
    by (rule overall_risk_length_mono) simp
next
  assume h: "(get_has_pathology (pathology_analysis ml) \<longrightarrow> get_has_pathology (pathology_analysis ml'))
       \<and> (total_discrepancies cm > 0 \<longrightarrow> total_discrepancies cm' > 0)
       \<and> (s < 70 \<longrightarrow> s' < 70)
       \<and> (list_ex (\<lambda>img. (case ir_overall_quality_score img of None \<Rightarrow> 100 | Some q \<Rightarrow> q) < 60)
             (filter ir_success irs)
           \<longrightarrow> list_ex (\<lambda>img. (case ir_overall_quality_score img of None \<Rightarrow> 100 | Some q \<Rightarrow> q) < 60)
             (filter ir_success irs'))"
  have "length (report_risk_factors ml cm s irs) \<le> length (report_risk_factors ml' cm' s' irs')"
    unfolding report_risk_factors_length using h by auto
  then show "risk_rank (v_risk_level (generate_comprehensive_report ml cm s irs))
           \<le> risk_rank (v_risk_level (generate_comprehensive_report ml' cm' s' irs'))"
    by (simp add: generate_comprehensive_report_def Let_def overall_risk_length_mono)
next
  assume h: "(get_has_pathology p \<longrightarrow> get_has_pathology p')
       \<and> (get_severity sv = Some ''severe'' \<longrightarrow> get_severity sv' = Some ''severe'')
       \<and> (get_quality q \<in> {Some ''poor'', Some ''fair''}
           \<longrightarrow> get_quality q' \<in> {Some ''poor'', Some ''fair''})
       \<and> (get_has_discrepancy d \<longrightarrow> get_has_discrepancy d')"
  have "length (ml_risk_factors p sv q d) \<le> length (ml_risk_factors p' sv' q' d')"
    unfolding ml_risk_factors_length using h by auto
  then show "risk_rank (overall_risk_level (aggregate_predictions p sv q d))
           \<le> risk_rank (overall_risk_level (aggregate_predictions p' sv' q' d'))"
    by (simp add: aggregate_predictions_def Let_def overall_risk_length_mono)
qed

theorem C8_witness:
  "risk_rank (v_risk_level (generate_comprehensive_report
       (aggregate_predictions (Pathology_record False 0.8 0.2 0.8) (Error_record ''e'')
          (Error_record ''e'') (Error_record ''e''))
       (perform_cross_modal_analysis [] []) 80 []))
   \<le> risk_rank (v_risk_level (generate_comprehensive_report
       (aggregate_predictions (Pathology_record True 0.8 0.8 0.2) (Error_record ''e'')
          (Error_record ''e'') (Error_record ''e''))
       (perform_cross_modal_analysis [] []) 80 []))
   \<and> v_risk_level (generate_comprehensive_report
       (aggregate_predictions (Pathology_record False 0.8 0.2 0.8) (Error_record ''e'')
          (Error_record ''e'') (Error_record ''e''))
       (perform_cross_modal_analysis [] []) 80 []) = ''low''
   \<and> v_risk_level (generate_comprehensive_report
       (aggregate_predictions (Pathology_record True 0.8 0.8 0.2) (Error_record ''e'')
          (Error_record ''e'') (Error_record ''e''))
       (perform_cross_modal_analysis [] []) 80 []) = ''medium''"
proof -
  let ?ml = "aggregate_predictions (Pathology_record False 0.8 0.2 0.8) (Error_record ''e'')
          (Error_record ''e'') (Error_record ''e'')"
  let ?ml' = "aggregate_predictions (Pathology_record True 0.8 0.8 0.2) (Error_record ''e'')
          (Error_record ''e'') (Error_record ''e'')"
  let ?cm = "perform_cross_modal_analysis [] []"
  have h: "get_has_pathology (pathology_analysis ?ml')"
    by (simp add: aggregate_predictions_def Let_def)
  have one: "risk_rank (v_risk_level (generate_comprehensive_report ?ml ?cm 80 []))
      \<le> risk_rank (v_risk_level (generate_comprehensive_report ?ml' ?cm 80 []))"
    using C8_risk_level_monotone [where ml = ?ml and ml' = ?ml' and cm = ?cm and cm' = ?cm
        and s = 80 and s' = 80 and irs = "[]" and irs' = "[]"] h
    by blast
  have two: "v_risk_level (generate_comprehensive_report ?ml ?cm 80 []) = ''low''"
    by code_simp
  have three: "v_risk_level (generate_comprehensive_report ?ml' ?cm 80 []) = ''medium''"
    by code_simp
  show ?thesis using one two three by blast
qed

text \<open>
  Claim C9. While the models are not trained, each of the four predictors returns the
  error record \<^verbatim>\<open>{'error': 'Models not trained yet'}\<close> as a value, raises nothing
  and leaves the model state as it was; and the aggregation over error records still
  gives a verdict: no risk factor, level low, confidence 0.
\<close>

theorem C9_untrained_predictors:
  "\<not> is_trained self \<Longrightarrow>
     predict_pathology est self features = (Inr (Error_record ''Models not trained yet''), self)
     \<and> predict_severity est self features = (Inr (Error_record ''Models not trained yet''), self)
     \<and> predict_quality est self features = (Inr (Error_record ''Models not trained yet''), self)
     \<and> predict_discrepancy est self features = (Inr (Error_record ''Models not trained yet''), self)
     \<and> overall_risk_level
         (aggregate_predictions (Error_record e1) (Error_record e2) (Error_record e3) (Error_record e4))
       = ''low''
     \<and> risk_factors
         (aggregate_predictions (Error_record e1) (Error_record e2) (Error_record e3) (Error_record e4))
       = []
     \<and> overall_confidence
         (aggregate_predictions (Error_record e1) (Error_record e2) (Error_record e3) (Error_record e4))
       = 0"
  by (simp add: predict_pathology_def predict_severity_def predict_quality_def
        predict_discrepancy_def aggregate_predictions_def ml_risk_factors_def overall_risk_def
        np_mean_def)

theorem C9_witness:
  "predict_pathology
     \<lparr>est_fit = (\<lambda>m. m), est_predict = (\<lambda>m name v. 0), est_predict_proba = (\<lambda>m name v. [])\<rparr>
     \<lparr>models = (), feature_names = [], is_trained = False\<rparr>
     Map.empty
   = (Inr (Error_record ''Models not trained yet''),
      \<lparr>models = (), feature_names = [], is_trained = False\<rparr>)
   \<and> predict_severity
     \<lparr>est_fit = (\<lambda>m. m), est_predict = (\<lambda>m name v. 0), est_predict_proba = (\<lambda>m name v. [])\<rparr>
     \<lparr>models = (), feature_names = [], is_trained = False\<rparr>
     Map.empty
   = (Inr (Error_record ''Models not trained yet''),
      \<lparr>models = (), feature_names = [], is_trained = False\<rparr>)"
proof -
  have h: "\<not> is_trained \<lparr>models = (), feature_names = [], is_trained = False\<rparr>"
    by simp
  show ?thesis
    using C9_untrained_predictors [OF h,
        where est = "\<lparr>est_fit = (\<lambda>m. m), est_predict = (\<lambda>m name v. 0),
                        est_predict_proba = (\<lambda>m name v. [])\<rparr>"
          and features = Map.empty]
    by blast
qed

end
